theory Spec2Isabelle
  imports Main
begin

section \<open>UrlPathTransformer (src/transformers/urlPathTransformer.ts)\<close>

text \<open>
  The transformer maps client file paths to target URLs and back. Its state is the four
  private fields of the class; the lines written to the logger are kept next to them so
  that what an operation logs is part of its result.
\<close>

subsection \<open>JavaScript values\<close>

text \<open>
  A value of TypeScript type \<open>string\<close> that may be \<open>undefined\<close> is a \<open>string option\<close>.
  The source tests such values for truthiness (\<open>!x\<close>, \<open>x || y\<close>, \<open>if (x)\<close>): \<open>undefined\<close>
  and the empty string are falsy, every other string is truthy.
\<close>

fun truthy :: "string option \<Rightarrow> bool" where
  "truthy None = False"
| "truthy (Some s) = (s \<noteq> [])"

text \<open>The string that a truthy value is.\<close>

fun string_of :: "string option \<Rightarrow> string" where
  "string_of None = []"
| "string_of (Some s) = s"

text \<open>\<open>a || b\<close> on such values.\<close>

definition js_or :: "string option \<Rightarrow> string option \<Rightarrow> string option" where
  "js_or a b = (if truthy a then a else b)"

text \<open>A value inside a template literal \<open>`${x}`\<close>.\<close>

fun template :: "string option \<Rightarrow> string" where
  "template None = ''undefined''"
| "template (Some s) = s"

text \<open>\<open>String.prototype.startsWith\<close>.\<close>

definition startsWith :: "string \<Rightarrow> string \<Rightarrow> bool" where
  "startsWith s p = (take (length p) s = p)"

subsection \<open>Collaborators outside the file\<close>

text \<open>
  The transformer calls \<open>utils.isURL\<close>, \<open>utils.canonicalizeUrl\<close>, \<open>path.isAbsolute\<close>,
  \<open>ChromeUtils.targetUrlToClientPathByPathMappings\<close>, \<open>ChromeUtils.targetUrlToClientPath\<close>
  and reads \<open>ChromeDebugAdapter.EVAL_NAME_PREFIX\<close>. None of them is defined in the file;
  the operations take them as a parameter, and every general theorem below holds for
  each choice of them.
\<close>

type_synonym PathMapping = "(string \<times> string) list"

record collaborators =
  utils_isURL :: "string \<Rightarrow> bool"
  utils_canonicalizeUrl :: "string \<Rightarrow> string"
  path_isAbsolute :: "string \<Rightarrow> bool"
  targetUrlToClientPathByPathMappings :: "string \<Rightarrow> PathMapping \<Rightarrow> string option"
  targetUrlToClientPath :: "string option \<Rightarrow> string \<Rightarrow> string option"
  EVAL_NAME_PREFIX :: string

subsection \<open>State and protocol data\<close>

record UrlPathTransformer =
  webRoot :: "string option"
  pathMapping :: PathMapping
  clientPathToTargetUrl :: "string \<rightharpoonup> string"
  targetUrlToClientPath_map :: "string \<rightharpoonup> string"
  logger :: "string list"

text \<open>The field initialisers of the class; \<open>_webRoot\<close> has none.\<close>

definition new_UrlPathTransformer :: UrlPathTransformer where
  "new_UrlPathTransformer =
     \<lparr>webRoot = None, pathMapping = [], clientPathToTargetUrl = Map.empty,
      targetUrlToClientPath_map = Map.empty, logger = []\<rparr>"

text \<open>\<open>logger.log(msg)\<close>.\<close>

definition logger_log :: "string \<Rightarrow> UrlPathTransformer \<Rightarrow> UrlPathTransformer" where
  "logger_log msg this = this\<lparr>logger := logger this @ [msg]\<rparr>"

text \<open>The fields of the launch and attach arguments that the transformer reads.\<close>

record IRequestArgs =
  args_webRoot :: "string option"
  args_pathMapping :: "PathMapping option"

record Source =
  path :: "string option"
  sourceReference :: "int option"
  origin :: "string option"

record ISetBreakpointsArgs =
  source :: Source
  lines :: "int list"

record StackFrame =
  frame_id :: int
  frame_name :: string
  frame_source :: "Source option"
  line :: int
  column :: int

record IStackTraceResponseBody =
  stackFrames :: "StackFrame list"

subsection \<open>Operations\<close>

definition launch :: "IRequestArgs \<Rightarrow> UrlPathTransformer \<Rightarrow> UrlPathTransformer" where
  "launch args this =
     this\<lparr>webRoot := args_webRoot args,
          pathMapping := (case args_pathMapping args of None \<Rightarrow> [] | Some pm \<Rightarrow> pm)\<rparr>"

definition attach :: "IRequestArgs \<Rightarrow> UrlPathTransformer \<Rightarrow> UrlPathTransformer" where
  "attach args this =
     this\<lparr>webRoot := args_webRoot args,
          pathMapping := (case args_pathMapping args of None \<Rightarrow> [] | Some pm \<Rightarrow> pm)\<rparr>"

definition getTargetPathFromClientPath ::
  "collaborators \<Rightarrow> UrlPathTransformer \<Rightarrow> string \<Rightarrow> string option" where
  "getTargetPathFromClientPath h this clientPath =
     (if path_isAbsolute h clientPath
      then clientPathToTargetUrl this (utils_canonicalizeUrl h clientPath)
      else Some clientPath)"

definition getClientPathFromTargetPath :: "UrlPathTransformer \<Rightarrow> string \<Rightarrow> string option" where
  "getClientPathFromTargetPath this targetPath = targetUrlToClientPath_map this targetPath"

definition setBreakpoints ::
  "collaborators \<Rightarrow> ISetBreakpointsArgs \<Rightarrow> UrlPathTransformer
     \<Rightarrow> ISetBreakpointsArgs \<times> UrlPathTransformer" where
  "setBreakpoints h args this =
     (if \<not> truthy (path (source args)) then (args, this)
      else
        let p = string_of (path (source args)) in
        if utils_isURL h p
        then (args, logger_log (''Paths.setBP: '' @ p @ '' is already a URL'') this)
        else
          let cpath = utils_canonicalizeUrl h p;
              url = getTargetPathFromClientPath h this cpath
          in if truthy url
             then (args\<lparr>source := (source args)\<lparr>path := url\<rparr>\<rparr>,
                   logger_log (''Paths.setBP: Resolved '' @ cpath @ '' to '' @ template url) this)
             else (args\<lparr>source := (source args)\<lparr>path := Some cpath\<rparr>\<rparr>,
                   logger_log (''Paths.setBP: No target url cached yet for client path: ''
                               @ cpath @ ''.'') this))"

definition clearTargetContext :: "UrlPathTransformer \<Rightarrow> UrlPathTransformer" where
  "clearTargetContext this =
     this\<lparr>clientPathToTargetUrl := Map.empty, targetUrlToClientPath_map := Map.empty\<rparr>"

definition scriptParsed ::
  "collaborators \<Rightarrow> string \<Rightarrow> UrlPathTransformer \<Rightarrow> string \<times> UrlPathTransformer" where
  "scriptParsed h scriptUrl this =
     (let clientPath0 = targetUrlToClientPathByPathMappings h scriptUrl (pathMapping this);
          clientPath = (if \<not> truthy clientPath0
                        then targetUrlToClientPath h (webRoot this) scriptUrl
                        else clientPath0)
      in
      if \<not> truthy clientPath
      then if \<not> startsWith scriptUrl (EVAL_NAME_PREFIX h)
           then (scriptUrl,
                 logger_log (''Paths.scriptParsed: could not resolve '' @ scriptUrl
                    @ '' to a file under webRoot: '' @ template (webRoot this)
                    @ ''. It may be external or served directly from the server''
                    @ [CHR 0x27] @ ''s memory (and that'' @ [CHR 0x27] @ ''s OK).'') this)
           else (scriptUrl, this)
      else
        let c = string_of clientPath;
            this1 = logger_log (''Paths.scriptParsed: resolved '' @ scriptUrl @ '' to '' @ c
                       @ ''. webRoot: '' @ template (webRoot this)) this;
            this2 = this1\<lparr>clientPathToTargetUrl := (clientPathToTargetUrl this1)(c \<mapsto> scriptUrl)\<rparr>;
            this3 = this2\<lparr>targetUrlToClientPath_map :=
                             (targetUrlToClientPath_map this2)(scriptUrl \<mapsto> c)\<rparr>
        in (c, this3))"

text \<open>The body of the \<open>forEach\<close> callback of \<open>stackTraceResponse\<close>.\<close>

definition stackFrame_fix ::
  "collaborators \<Rightarrow> UrlPathTransformer \<Rightarrow> StackFrame \<Rightarrow> StackFrame" where
  "stackFrame_fix h this frame =
     (case frame_source frame of
        None \<Rightarrow> frame
      | Some src \<Rightarrow>
          if \<not> truthy (path src) then frame
          else
            let p = string_of (path src);
                clientPath = js_or (getClientPathFromTargetPath this p)
                                   (targetUrlToClientPath h (webRoot this) p)
            in if truthy clientPath
               then frame\<lparr>frame_source :=
                      Some (src\<lparr>path := clientPath, sourceReference := None, origin := None\<rparr>)\<rparr>
               else frame)"

definition stackTraceResponse ::
  "collaborators \<Rightarrow> IStackTraceResponseBody \<Rightarrow> UrlPathTransformer
     \<Rightarrow> IStackTraceResponseBody \<times> UrlPathTransformer" where
  "stackTraceResponse h response this =
     (response\<lparr>stackFrames := map (stackFrame_fix h this) (stackFrames response)\<rparr>, this)"

subsection \<open>Exceptions\<close>



subsection \<open>Sequences of requests\<close>

text \<open>
  The adapter calls the transformer once per protocol message, one message at a time.
  \<open>dispatch\<close> is that call, keeping the state the operation leaves behind; the two
  lookups and \<open>stackTraceResponse\<close> assign no field, so they leave the state as it is.
\<close>

datatype request =
    Launch IRequestArgs
  | Attach IRequestArgs
  | SetBreakpoints ISetBreakpointsArgs
  | ClearTargetContext
  | ScriptParsed string
  | StackTraceResponse IStackTraceResponseBody
  | GetTargetPathFromClientPath string
  | GetClientPathFromTargetPath string

fun dispatch :: "collaborators \<Rightarrow> UrlPathTransformer \<Rightarrow> request \<Rightarrow> UrlPathTransformer" where
  "dispatch h this (Launch args) = launch args this"
| "dispatch h this (Attach args) = attach args this"
| "dispatch h this (SetBreakpoints args) = snd (setBreakpoints h args this)"
| "dispatch h this ClearTargetContext = clearTargetContext this"
| "dispatch h this (ScriptParsed scriptUrl) = snd (scriptParsed h scriptUrl this)"
| "dispatch h this (StackTraceResponse response) = snd (stackTraceResponse h response this)"
| "dispatch h this (GetTargetPathFromClientPath clientPath) = this"
| "dispatch h this (GetClientPathFromTargetPath targetPath) = this"

definition run :: "collaborators \<Rightarrow> UrlPathTransformer \<Rightarrow> request list \<Rightarrow> UrlPathTransformer" where
  "run h this rs = foldl (dispatch h) this rs"

text \<open>The two maps of the cache, as a pair.\<close>

definition caches :: "UrlPathTransformer \<Rightarrow> (string \<rightharpoonup> string) \<times> (string \<rightharpoonup> string)" where
  "caches this = (clientPathToTargetUrl this, targetUrlToClientPath_map this)"

subsection \<open>An instance of the collaborators\<close>

text \<open>
  The instance below is used to evaluate the operations on concrete inputs.
  \<open>path.isAbsolute\<close> belongs to the Node standard library; on a POSIX host a path is
  absolute iff it starts with a slash.
\<close>

definition posix_isAbsolute :: "string \<Rightarrow> bool" where
  "posix_isAbsolute p = (case p of [] \<Rightarrow> False | c # _ \<Rightarrow> c = CHR ''/'')"

text \<open>
  Modelled from the spec: \<open>utils.isURL\<close> is not in the source file. Section 4.1 classifies
  a string as a URL by its scheme prefix: a non-empty scheme without a slash, followed
  by \<open>://\<close>.
\<close>

definition spec_isURL :: "string \<Rightarrow> bool" where
  "spec_isURL s =
     (let scheme = takeWhile (\<lambda>c. c \<noteq> CHR '':'') s
      in scheme \<noteq> [] \<and> CHR ''/'' \<notin> set scheme \<and> take 3 (drop (length scheme) s) = ''://'')"

text \<open>
  Modelled from the spec: \<open>utils.canonicalizeUrl\<close> is not in the source file. Section 4.1
  asks for a separator-normalised form and for case normalisation only on a
  case-insensitive file system; this instance is the case-sensitive one.
\<close>

definition spec_canonicalizeUrl :: "string \<Rightarrow> string" where
  "spec_canonicalizeUrl p = map (\<lambda>c. if c = CHR 0x5C then CHR ''/'' else c) p"

text \<open>
  Modelled from the spec: section 4.3 strips the origin and the query of a URL. The path
  of a URL is what follows the origin, up to the query.
\<close>

definition url_pathname :: "string \<Rightarrow> string" where
  "url_pathname u =
     takeWhile (\<lambda>c. c \<noteq> CHR ''?'')
       (dropWhile (\<lambda>c. c \<noteq> CHR ''/'') (drop 3 (dropWhile (\<lambda>c. c \<noteq> CHR '':'') u)))"

text \<open>
  Modelled from the spec: sections 4.2 and 4.3 join a directory and a remainder and
  normalise the separators; here, exactly one separator between the two.
\<close>

definition join_path :: "string \<Rightarrow> string \<Rightarrow> string" where
  "join_path dir seg =
     rev (dropWhile (\<lambda>c. c = CHR ''/'') (rev dir)) @ ''/'' @ dropWhile (\<lambda>c. c = CHR ''/'') seg"

text \<open>
  Modelled from the spec: \<open>ChromeUtils.targetUrlToClientPathByPathMappings\<close> is not in the
  source file. Section 4.2: the entries are tried in order; the first entry whose prefix
  matches the start of the URL (or, as in the scenario of section 8, of the URL's path)
  gives the entry's directory joined with the remainder; none when no entry matches.
\<close>

fun spec_targetUrlToClientPathByPathMappings :: "string \<Rightarrow> PathMapping \<Rightarrow> string option" where
  "spec_targetUrlToClientPathByPathMappings u [] = None"
| "spec_targetUrlToClientPathByPathMappings u ((prefix, dir) # rest) =
     (if prefix \<noteq> [] \<and> spec_isURL u \<and> startsWith u prefix
      then Some (join_path dir (drop (length prefix) u))
      else if prefix \<noteq> [] \<and> spec_isURL u \<and> startsWith (url_pathname u) prefix
      then Some (join_path dir (drop (length prefix) (url_pathname u)))
      else spec_targetUrlToClientPathByPathMappings u rest)"

text \<open>
  Modelled from the spec: \<open>ChromeUtils.targetUrlToClientPath\<close> is not in the source file.
  Section 4.3: strip origin and query, join the rest to the web root; none when the web
  root is unset or the URL has no path to take.
\<close>

definition spec_targetUrlToClientPath :: "string option \<Rightarrow> string \<Rightarrow> string option" where
  "spec_targetUrlToClientPath root u =
     (if \<not> truthy root \<or> \<not> spec_isURL u \<or> url_pathname u = [] \<or> url_pathname u = ''/''
      then None
      else Some (join_path (string_of root) (url_pathname u)))"

text \<open>
  Modelled from the spec: \<open>ChromeDebugAdapter.EVAL_NAME_PREFIX\<close> is a constant of another
  file. The scenario of section 8 uses \<open>eval://123\<close> as a dynamically evaluated script, and
  the comment in \<open>scriptParsed\<close> names the prefix \<open>eval://\<close>.
\<close>

definition spec_collaborators :: collaborators where
  "spec_collaborators =
     \<lparr>utils_isURL = spec_isURL,
      utils_canonicalizeUrl = spec_canonicalizeUrl,
      path_isAbsolute = posix_isAbsolute,
      targetUrlToClientPathByPathMappings = spec_targetUrlToClientPathByPathMappings,
      targetUrlToClientPath = spec_targetUrlToClientPath,
      EVAL_NAME_PREFIX = ''eval://''\<rparr>"



subsection \<open>Notions used in the statements\<close>

text \<open>
  The value of \<open>clientPath\<close> when \<open>scriptParsed\<close> reaches its second test: the result of
  the path-mapping resolver when that is truthy, of the web-root resolver otherwise.
\<close>

definition resolution :: "collaborators \<Rightarrow> UrlPathTransformer \<Rightarrow> string \<Rightarrow> string option" where
  "resolution h this scriptUrl =
     (if truthy (targetUrlToClientPathByPathMappings h scriptUrl (pathMapping this))
      then targetUrlToClientPathByPathMappings h scriptUrl (pathMapping this)
      else targetUrlToClientPath h (webRoot this) scriptUrl)"

text \<open>
  The two maps agree: \<open>u\<close> maps to \<open>c\<close> in one exactly when \<open>c\<close> maps to \<open>u\<close> in the
  other.
\<close>

definition bidirectional :: "UrlPathTransformer \<Rightarrow> bool" where
  "bidirectional this =
     (\<forall>u c. targetUrlToClientPath_map this u = Some c
              \<longleftrightarrow> clientPathToTargetUrl this c = Some u)"

text \<open>
  A request reuses no key: it is not a \<open>scriptParsed\<close> that resolves \<open>u\<close> to \<open>c\<close> while
  the cache holds \<open>u\<close> with another path, or \<open>c\<close> with another URL.
\<close>

fun no_reuse :: "collaborators \<Rightarrow> UrlPathTransformer \<Rightarrow> request \<Rightarrow> bool" where
  "no_reuse h this (ScriptParsed u) =
     (if truthy (resolution h this u)
      then (targetUrlToClientPath_map this u = None
              \<or> targetUrlToClientPath_map this u = Some (string_of (resolution h this u)))
         \<and> (clientPathToTargetUrl this (string_of (resolution h this u)) = None
              \<or> clientPathToTargetUrl this (string_of (resolution h this u)) = Some u)
      else True)"
| "no_reuse h this r = True"

fun no_reuse_run :: "collaborators \<Rightarrow> UrlPathTransformer \<Rightarrow> request list \<Rightarrow> bool" where
  "no_reuse_run h this [] = True"
| "no_reuse_run h this (r # rs) = (no_reuse h this r \<and> no_reuse_run h (dispatch h this r) rs)"

text \<open>A request that is a \<open>scriptParsed\<close> notification.\<close>

fun is_ScriptParsed :: "request \<Rightarrow> bool" where
  "is_ScriptParsed (ScriptParsed u) = True"
| "is_ScriptParsed r = False"

subsection \<open>Example data\<close>

text \<open>
  A session with a path mapping and a web root in which one script has been parsed, and
  a stack trace with four frames: one whose URL is in the cache, one that only the web
  root resolves, one without a source, one that nothing resolves.
\<close>

definition example_session :: UrlPathTransformer where
  "example_session =
     snd (scriptParsed spec_collaborators ''http://localhost/app/main.js''
       (launch \<lparr>args_webRoot = Some ''/home/user/proj'',
                args_pathMapping = Some [(''/app/'', ''/srv/www'')]\<rparr> new_UrlPathTransformer))"

definition example_response :: IStackTraceResponseBody where
  "example_response =
     \<lparr>stackFrames =
        [\<lparr>frame_id = 1, frame_name = ''main'',
          frame_source = Some \<lparr>path = Some ''http://localhost/app/main.js'',
                               sourceReference = Some 7, origin = Some ''remote''\<rparr>,
          line = 10, column = 2\<rparr>,
         \<lparr>frame_id = 2, frame_name = ''helper'',
          frame_source = Some \<lparr>path = Some ''http://localhost/lib.js'',
                               sourceReference = Some 8, origin = None\<rparr>,
          line = 4, column = 1\<rparr>,
         \<lparr>frame_id = 3, frame_name = ''native'', frame_source = None, line = 0, column = 0\<rparr>,
         \<lparr>frame_id = 4, frame_name = ''anonymous'',
          frame_source = Some \<lparr>path = Some ''eval://123'',
                               sourceReference = Some 9, origin = Some ''eval''\<rparr>,
          line = 1, column = 1\<rparr>]\<rparr>"

text \<open>
  Two URLs that differ in their query only: the web root resolves both to the same file.
\<close>

definition example_requests :: "request list" where
  "example_requests =
     [Launch \<lparr>args_webRoot = Some ''/home/user/proj'', args_pathMapping = None\<rparr>,
      ScriptParsed ''http://localhost/main.js'',
      ScriptParsed ''http://localhost/main.js?v=2'']"

text \<open>Two scripts that resolve to two files, with a breakpoint request in between.\<close>

definition example_requests_distinct :: "request list" where
  "example_requests_distinct =
     [Launch \<lparr>args_webRoot = Some ''/home/user/proj'', args_pathMapping = None\<rparr>,
      ScriptParsed ''http://localhost/main.js'',
      SetBreakpoints \<lparr>source = \<lparr>path = Some ''/home/user/proj/main.js'',
                                  sourceReference = None, origin = None\<rparr>, lines = [3]\<rparr>,
      ScriptParsed ''http://localhost/lib.js'']"

section \<open>Evaluation on concrete inputs\<close>

lemmas eval_defs =
  scriptParsed_def spec_collaborators_def launch_def attach_def new_UrlPathTransformer_def
  spec_isURL_def startsWith_def url_pathname_def join_path_def logger_log_def Let_def
  spec_targetUrlToClientPath_def getClientPathFromTargetPath_def
  getTargetPathFromClientPath_def posix_isAbsolute_def spec_canonicalizeUrl_def
  clearTargetContext_def setBreakpoints_def stackTraceResponse_def stackFrame_fix_def
  js_or_def caches_def run_def

section \<open>What \<open>scriptParsed\<close> does\<close>

lemma scriptParsed_resolved:
  assumes "truthy (resolution h this u)"
  shows "scriptParsed h u this =
    (string_of (resolution h this u),
     this\<lparr>clientPathToTargetUrl :=
            (clientPathToTargetUrl this)(string_of (resolution h this u) \<mapsto> u),
          targetUrlToClientPath_map :=
            (targetUrlToClientPath_map this)(u \<mapsto> string_of (resolution h this u)),
          logger := logger this @ [''Paths.scriptParsed: resolved '' @ u @ '' to ''
              @ string_of (resolution h this u) @ ''. webRoot: '' @ template (webRoot this)]\<rparr>)"
  using assms
  by (simp add: scriptParsed_def resolution_def Let_def logger_log_def split: if_splits)

lemma scriptParsed_miss:
  assumes "\<not> truthy (resolution h this u)"
  shows "fst (scriptParsed h u this) = u"
    and "caches (snd (scriptParsed h u this)) = caches this"
    and "webRoot (snd (scriptParsed h u this)) = webRoot this"
    and "pathMapping (snd (scriptParsed h u this)) = pathMapping this"
  using assms
  by (simp_all add: scriptParsed_def resolution_def Let_def logger_log_def caches_def
        split: if_splits)

lemma scriptParsed_changed_imp_resolved:
  assumes "scriptParsed h u this = (c, this')" and "c \<noteq> u"
  shows "truthy (resolution h this u) \<and> c = string_of (resolution h this u)"
proof (cases "truthy (resolution h this u)")
  case True
  with assms scriptParsed_resolved[OF True] show ?thesis by simp
next
  case False
  from scriptParsed_miss(1)[OF False] assms show ?thesis by simp
qed

section \<open>Round trip\<close>

text \<open>
  Claim C1, as the code has it. When \<open>scriptParsed u\<close> returns a string \<open>c\<close> other than
  \<open>u\<close>, the lookup by target URL gives \<open>c\<close> right afterwards. The lookup by client path
  gives \<open>u\<close> back when \<open>c\<close> is an absolute path that \<open>canonicalizeUrl\<close> leaves as it is:
  the entry is stored under \<open>c\<close> itself, and looked up under the canonical form of \<open>c\<close>.
  When \<open>c\<close> is not absolute, the lookup by client path returns \<open>c\<close>, not \<open>u\<close>.
\<close>

theorem scriptParsed_round_trip:
  assumes "scriptParsed h u this = (c, this')" and "c \<noteq> u"
  shows "getClientPathFromTargetPath this' u = Some c \<and>
         (path_isAbsolute h c \<and> utils_canonicalizeUrl h c = c
            \<longrightarrow> getTargetPathFromClientPath h this' c = Some u) \<and>
         (\<not> path_isAbsolute h c \<longrightarrow> getTargetPathFromClientPath h this' c = Some c)"
proof -
  from scriptParsed_changed_imp_resolved[OF assms]
  have r: "truthy (resolution h this u)" and c: "c = string_of (resolution h this u)"
    by simp_all
  from scriptParsed_resolved[OF r] assms(1) c
  have t: "targetUrlToClientPath_map this' = (targetUrlToClientPath_map this)(u \<mapsto> c)"
    and k: "clientPathToTargetUrl this' = (clientPathToTargetUrl this)(c \<mapsto> u)"
    by auto
  show ?thesis
    by (simp add: getClientPathFromTargetPath_def getTargetPathFromClientPath_def t k)
qed

text \<open>
  The scenario of the spec with web root \<open>/home/user/proj\<close>: the script resolves to an
  absolute canonical path and both lookups invert each other.
\<close>

theorem scriptParsed_round_trip_witness:
  "getClientPathFromTargetPath
     (snd (scriptParsed spec_collaborators ''http://localhost/main.js''
        (launch \<lparr>args_webRoot = Some ''/home/user/proj'', args_pathMapping = None\<rparr>
           new_UrlPathTransformer)))
     ''http://localhost/main.js'' = Some ''/home/user/proj/main.js'' \<and>
   getTargetPathFromClientPath spec_collaborators
     (snd (scriptParsed spec_collaborators ''http://localhost/main.js''
        (launch \<lparr>args_webRoot = Some ''/home/user/proj'', args_pathMapping = None\<rparr>
           new_UrlPathTransformer)))
     ''/home/user/proj/main.js'' = Some ''http://localhost/main.js''"
proof -
  let ?S = "launch \<lparr>args_webRoot = Some ''/home/user/proj'', args_pathMapping = None\<rparr>
              new_UrlPathTransformer"
  let ?R = "scriptParsed spec_collaborators ''http://localhost/main.js'' ?S"
  have c: "fst ?R = ''/home/user/proj/main.js''"
    by (simp add: eval_defs)
  have e: "?R = (''/home/user/proj/main.js'', snd ?R)"
    using c by (metis prod.collapse)
  have n: "''/home/user/proj/main.js'' \<noteq> ''http://localhost/main.js''"
    by simp
  have a: "path_isAbsolute spec_collaborators ''/home/user/proj/main.js''"
    by (simp add: spec_collaborators_def posix_isAbsolute_def)
  have k: "utils_canonicalizeUrl spec_collaborators ''/home/user/proj/main.js''
             = ''/home/user/proj/main.js''"
    by (simp add: spec_collaborators_def spec_canonicalizeUrl_def)
  from scriptParsed_round_trip[OF e n] a k show ?thesis by simp
qed

text \<open>
  With the relative web root \<open>proj\<close> the script resolves to \<open>proj/main.js\<close>, which differs
  from the URL; the lookup by client path then returns \<open>proj/main.js\<close> and not the URL.
\<close>

theorem round_trip_counterexample:
  "fst (scriptParsed spec_collaborators ''http://localhost/main.js''
        (launch \<lparr>args_webRoot = Some ''proj'', args_pathMapping = None\<rparr>
           new_UrlPathTransformer))
     = ''proj/main.js'' \<and>
   ''proj/main.js'' \<noteq> ''http://localhost/main.js'' \<and>
   getTargetPathFromClientPath spec_collaborators
     (snd (scriptParsed spec_collaborators ''http://localhost/main.js''
        (launch \<lparr>args_webRoot = Some ''proj'', args_pathMapping = None\<rparr>
           new_UrlPathTransformer)))
     ''proj/main.js'' \<noteq> Some ''http://localhost/main.js''"
  by (simp add: eval_defs)

section \<open>Precedence of the resolvers\<close>

text \<open>
  Claim C3. \<open>scriptParsed\<close> asks the path-mapping resolver first. When its result is
  truthy, that result is returned and cached in both maps, and the web-root resolver
  plays no part: replacing it by any other function \<open>f\<close> changes nothing. Only when the
  path-mapping resolver gives nothing is the result of the web-root resolver returned
  and cached.
\<close>

theorem scriptParsed_precedence:
  "(truthy (targetUrlToClientPathByPathMappings h u (pathMapping this)) \<longrightarrow>
      fst (scriptParsed h u this)
        = string_of (targetUrlToClientPathByPathMappings h u (pathMapping this)) \<and>
      getClientPathFromTargetPath (snd (scriptParsed h u this)) u
        = targetUrlToClientPathByPathMappings h u (pathMapping this) \<and>
      clientPathToTargetUrl (snd (scriptParsed h u this))
        (string_of (targetUrlToClientPathByPathMappings h u (pathMapping this))) = Some u \<and>
      scriptParsed (h\<lparr>targetUrlToClientPath := f\<rparr>) u this = scriptParsed h u this) \<and>
   (\<not> truthy (targetUrlToClientPathByPathMappings h u (pathMapping this)) \<and>
    truthy (targetUrlToClientPath h (webRoot this) u) \<longrightarrow>
      fst (scriptParsed h u this) = string_of (targetUrlToClientPath h (webRoot this) u) \<and>
      getClientPathFromTargetPath (snd (scriptParsed h u this)) u
        = targetUrlToClientPath h (webRoot this) u \<and>
      clientPathToTargetUrl (snd (scriptParsed h u this))
        (string_of (targetUrlToClientPath h (webRoot this) u)) = Some u)"
proof (intro conjI impI)
  assume pm: "truthy (targetUrlToClientPathByPathMappings h u (pathMapping this))"
  then obtain c where c: "targetUrlToClientPathByPathMappings h u (pathMapping this) = Some c"
    by (cases "targetUrlToClientPathByPathMappings h u (pathMapping this)") simp_all
  from pm have r: "resolution h this u = targetUrlToClientPathByPathMappings h u (pathMapping this)"
    by (simp add: resolution_def)
  with pm have t: "truthy (resolution h this u)" by simp
  note sp = scriptParsed_resolved[OF t]
  show "fst (scriptParsed h u this)
        = string_of (targetUrlToClientPathByPathMappings h u (pathMapping this))"
    by (simp add: sp r)
  show "getClientPathFromTargetPath (snd (scriptParsed h u this)) u
        = targetUrlToClientPathByPathMappings h u (pathMapping this)"
    by (simp add: sp r c getClientPathFromTargetPath_def)
  show "clientPathToTargetUrl (snd (scriptParsed h u this))
        (string_of (targetUrlToClientPathByPathMappings h u (pathMapping this))) = Some u"
    by (simp add: sp r)
  show "scriptParsed (h\<lparr>targetUrlToClientPath := f\<rparr>) u this = scriptParsed h u this"
    using pm by (simp add: scriptParsed_def Let_def)
next
  assume a: "\<not> truthy (targetUrlToClientPathByPathMappings h u (pathMapping this)) \<and>
    truthy (targetUrlToClientPath h (webRoot this) u)"
  then obtain c where c: "targetUrlToClientPath h (webRoot this) u = Some c"
    by (cases "targetUrlToClientPath h (webRoot this) u") simp_all
  from a have r: "resolution h this u = targetUrlToClientPath h (webRoot this) u"
    by (simp add: resolution_def)
  with a have t: "truthy (resolution h this u)" by simp
  note sp = scriptParsed_resolved[OF t]
  show "fst (scriptParsed h u this) = string_of (targetUrlToClientPath h (webRoot this) u)"
    by (simp add: sp r)
  show "getClientPathFromTargetPath (snd (scriptParsed h u this)) u
        = targetUrlToClientPath h (webRoot this) u"
    by (simp add: sp r c getClientPathFromTargetPath_def)
  show "clientPathToTargetUrl (snd (scriptParsed h u this))
        (string_of (targetUrlToClientPath h (webRoot this) u)) = Some u"
    by (simp add: sp r)
qed

text \<open>
  Path mapping \<open>/app/\<close> to \<open>/srv/www\<close> and web root \<open>/home/user/proj\<close>: both resolvers
  resolve \<open>http://localhost/app/main.js\<close>, to different paths, and the path mapping wins;
  \<open>http://localhost/main.js\<close> matches no mapping and goes to the web root.
\<close>

theorem scriptParsed_precedence_witness:
  "spec_targetUrlToClientPathByPathMappings ''http://localhost/app/main.js''
      [(''/app/'', ''/srv/www'')] = Some ''/srv/www/main.js'' \<and>
   spec_targetUrlToClientPath (Some ''/home/user/proj'') ''http://localhost/app/main.js''
      = Some ''/home/user/proj/app/main.js'' \<and>
   fst (scriptParsed spec_collaborators ''http://localhost/app/main.js''
         (launch \<lparr>args_webRoot = Some ''/home/user/proj'',
                 args_pathMapping = Some [(''/app/'', ''/srv/www'')]\<rparr> new_UrlPathTransformer))
     = ''/srv/www/main.js'' \<and>
   getClientPathFromTargetPath
     (snd (scriptParsed spec_collaborators ''http://localhost/app/main.js''
         (launch \<lparr>args_webRoot = Some ''/home/user/proj'',
                 args_pathMapping = Some [(''/app/'', ''/srv/www'')]\<rparr> new_UrlPathTransformer)))
     ''http://localhost/app/main.js'' = Some ''/srv/www/main.js'' \<and>
   fst (scriptParsed spec_collaborators ''http://localhost/main.js''
         (launch \<lparr>args_webRoot = Some ''/home/user/proj'',
                 args_pathMapping = Some [(''/app/'', ''/srv/www'')]\<rparr> new_UrlPathTransformer))
     = ''/home/user/proj/main.js''"
proof -
  let ?S = "launch \<lparr>args_webRoot = Some ''/home/user/proj'',
                 args_pathMapping = Some [(''/app/'', ''/srv/www'')]\<rparr> new_UrlPathTransformer"
  have pm: "targetUrlToClientPathByPathMappings spec_collaborators ''http://localhost/app/main.js''
              (pathMapping ?S) = Some ''/srv/www/main.js''"
    by (simp add: eval_defs)
  have wr: "targetUrlToClientPath spec_collaborators (webRoot ?S) ''http://localhost/app/main.js''
              = Some ''/home/user/proj/app/main.js''"
    by (simp add: eval_defs)
  have pm2: "targetUrlToClientPathByPathMappings spec_collaborators ''http://localhost/main.js''
              (pathMapping ?S) = None"
    by (simp add: eval_defs)
  have wr2: "targetUrlToClientPath spec_collaborators (webRoot ?S) ''http://localhost/main.js''
              = Some ''/home/user/proj/main.js''"
    by (simp add: eval_defs)
  from scriptParsed_precedence[of spec_collaborators "''http://localhost/app/main.js''" ?S]
    scriptParsed_precedence[of spec_collaborators "''http://localhost/main.js''" ?S]
    pm wr pm2 wr2
  show ?thesis by (simp add: spec_collaborators_def launch_def new_UrlPathTransformer_def)
qed

section \<open>Scripts that do not resolve\<close>

text \<open>
  Claim C5. When neither resolver gives a truthy result, \<open>scriptParsed\<close> returns the URL
  as it came and leaves both maps alone. It writes nothing to the log when the URL
  starts with \<open>EVAL_NAME_PREFIX\<close>, and exactly one line otherwise.
\<close>

theorem scriptParsed_unresolved_case:
  assumes "\<not> truthy (targetUrlToClientPathByPathMappings h u (pathMapping this))"
      and "\<not> truthy (targetUrlToClientPath h (webRoot this) u)"
  shows "fst (scriptParsed h u this) = u \<and>
         caches (snd (scriptParsed h u this)) = caches this \<and>
         logger (snd (scriptParsed h u this)) =
           (if startsWith u (EVAL_NAME_PREFIX h) then logger this
            else logger this @
              [''Paths.scriptParsed: could not resolve '' @ u
                 @ '' to a file under webRoot: '' @ template (webRoot this)
                 @ ''. It may be external or served directly from the server''
                 @ [CHR 0x27] @ ''s memory (and that'' @ [CHR 0x27] @ ''s OK).''])"
  using assms by (simp add: scriptParsed_def Let_def logger_log_def caches_def)

text \<open>
  With web root \<open>/home/user/proj\<close> and no path mapping: \<open>eval://123\<close> comes back unchanged
  and silently; \<open>http://cdn.example.com/\<close> has no path to resolve, comes back unchanged
  and leaves one line in the log.
\<close>

theorem scriptParsed_unresolved_case_witness:
  "fst (scriptParsed spec_collaborators ''eval://123''
          (launch \<lparr>args_webRoot = Some ''/home/user/proj'', args_pathMapping = None\<rparr>
             new_UrlPathTransformer)) = ''eval://123'' \<and>
   logger (snd (scriptParsed spec_collaborators ''eval://123''
          (launch \<lparr>args_webRoot = Some ''/home/user/proj'', args_pathMapping = None\<rparr>
             new_UrlPathTransformer))) = [] \<and>
   fst (scriptParsed spec_collaborators ''http://cdn.example.com/''
          (launch \<lparr>args_webRoot = Some ''/home/user/proj'', args_pathMapping = None\<rparr>
             new_UrlPathTransformer)) = ''http://cdn.example.com/'' \<and>
   length (logger (snd (scriptParsed spec_collaborators ''http://cdn.example.com/''
          (launch \<lparr>args_webRoot = Some ''/home/user/proj'', args_pathMapping = None\<rparr>
             new_UrlPathTransformer)))) = 1"
proof -
  let ?S = "launch \<lparr>args_webRoot = Some ''/home/user/proj'', args_pathMapping = None\<rparr>
              new_UrlPathTransformer"
  have pm: "\<not> truthy (targetUrlToClientPathByPathMappings spec_collaborators ''eval://123''
                        (pathMapping ?S))"
    by (simp add: eval_defs)
  have wr: "\<not> truthy (targetUrlToClientPath spec_collaborators (webRoot ?S) ''eval://123'')"
    by (simp add: eval_defs)
  have pm2: "\<not> truthy (targetUrlToClientPathByPathMappings spec_collaborators
                        ''http://cdn.example.com/'' (pathMapping ?S))"
    by (simp add: eval_defs)
  have wr2: "\<not> truthy (targetUrlToClientPath spec_collaborators (webRoot ?S)
                        ''http://cdn.example.com/'')"
    by (simp add: eval_defs)
  have l: "logger ?S = []"
    by (simp add: launch_def new_UrlPathTransformer_def)
  have p1: "startsWith ''eval://123'' (EVAL_NAME_PREFIX spec_collaborators)"
    by (simp add: startsWith_def spec_collaborators_def)
  have p2: "\<not> startsWith ''http://cdn.example.com/'' (EVAL_NAME_PREFIX spec_collaborators)"
    by (simp add: startsWith_def spec_collaborators_def)
  from scriptParsed_unresolved_case[OF pm wr] scriptParsed_unresolved_case[OF pm2 wr2] l p1 p2
  show ?thesis by simp
qed

section \<open>Which operations touch the cache\<close>

lemma setBreakpoints_caches: "caches (snd (setBreakpoints h args this)) = caches this"
  by (simp add: setBreakpoints_def Let_def logger_log_def caches_def)

lemma stackTraceResponse_state: "snd (stackTraceResponse h response this) = this"
  by (simp add: stackTraceResponse_def)

lemma launch_caches: "caches (launch args this) = caches this"
  by (simp add: launch_def caches_def)

lemma attach_caches: "caches (attach args this) = caches this"
  by (simp add: attach_def caches_def)

lemma dispatch_caches:
  assumes "\<not> is_ScriptParsed r" and "r \<noteq> ClearTargetContext"
  shows "caches (dispatch h this r) = caches this"
  using assms
  by (cases r) (simp_all add: setBreakpoints_caches stackTraceResponse_state launch_caches attach_caches)

lemma run_Nil: "run h this [] = this"
  by (simp add: run_def)

lemma run_Cons: "run h this (r # rs) = run h (dispatch h this r) rs"
  by (simp add: run_def)

lemma run_caches:
  "list_all (\<lambda>r. \<not> is_ScriptParsed r \<and> r \<noteq> ClearTargetContext) rs
     \<Longrightarrow> caches (run h this rs) = caches this"
proof (induction rs arbitrary: this)
  case Nil
  show ?case by (simp add: run_Nil)
next
  case (Cons r rs)
  then show ?case by (simp add: run_Cons dispatch_caches)
qed

lemma run_caches_empty:
  "caches this = (Map.empty, Map.empty) \<Longrightarrow> list_all (\<lambda>r. \<not> is_ScriptParsed r) rs
     \<Longrightarrow> caches (run h this rs) = (Map.empty, Map.empty)"
proof (induction rs arbitrary: this)
  case Nil
  then show ?case by (simp add: run_Nil)
next
  case (Cons r rs)
  have "caches (dispatch h this r) = (Map.empty, Map.empty)"
  proof (cases "r = ClearTargetContext")
    case True
    then show ?thesis by (simp add: clearTargetContext_def caches_def)
  next
    case False
    with Cons.prems show ?thesis by (simp add: dispatch_caches)
  qed
  with Cons show ?case by (simp add: run_Cons)
qed

section \<open>Cache reset\<close>

text \<open>
  Claim C7. After \<open>clearTargetContext\<close> the lookup by target URL returns nothing for every
  URL, and the lookup by client path returns nothing for every absolute path, whatever
  the cache held before. Both stay so through any further requests among which there is
  no \<open>scriptParsed\<close>.
\<close>

theorem clearTargetContext_resets:
  "getClientPathFromTargetPath (clearTargetContext this) u = None \<and>
   (path_isAbsolute h c \<longrightarrow> getTargetPathFromClientPath h (clearTargetContext this) c = None) \<and>
   (list_all (\<lambda>r. \<not> is_ScriptParsed r) rs \<longrightarrow>
      getClientPathFromTargetPath (run h (clearTargetContext this) rs) u = None \<and>
      (path_isAbsolute h c \<longrightarrow>
         getTargetPathFromClientPath h (run h (clearTargetContext this) rs) c = None))"
proof -
  have e: "caches (clearTargetContext this) = (Map.empty, Map.empty)"
    by (simp add: clearTargetContext_def caches_def)
  have "list_all (\<lambda>r. \<not> is_ScriptParsed r) rs \<Longrightarrow>
          caches (run h (clearTargetContext this) rs) = (Map.empty, Map.empty)"
    by (rule run_caches_empty[OF e])
  with e show ?thesis
    by (auto simp add: caches_def getClientPathFromTargetPath_def getTargetPathFromClientPath_def)
qed

text \<open>
  A pair is cached, the context is cleared, a breakpoint request and a new launch follow:
  both lookups of the pair return nothing.
\<close>

theorem clearTargetContext_resets_witness:
  "getClientPathFromTargetPath
     (snd (scriptParsed spec_collaborators ''http://localhost/main.js''
        (launch \<lparr>args_webRoot = Some ''/home/user/proj'', args_pathMapping = None\<rparr>
           new_UrlPathTransformer)))
     ''http://localhost/main.js'' = Some ''/home/user/proj/main.js'' \<and>
   getClientPathFromTargetPath
     (run spec_collaborators
        (clearTargetContext
           (snd (scriptParsed spec_collaborators ''http://localhost/main.js''
              (launch \<lparr>args_webRoot = Some ''/home/user/proj'', args_pathMapping = None\<rparr>
                 new_UrlPathTransformer))))
        [SetBreakpoints \<lparr>source = \<lparr>path = Some ''/home/user/proj/main.js'',
                                    sourceReference = None, origin = None\<rparr>, lines = [3]\<rparr>,
         Launch \<lparr>args_webRoot = Some ''/srv'', args_pathMapping = None\<rparr>])
     ''http://localhost/main.js'' = None \<and>
   getTargetPathFromClientPath spec_collaborators
     (run spec_collaborators
        (clearTargetContext
           (snd (scriptParsed spec_collaborators ''http://localhost/main.js''
              (launch \<lparr>args_webRoot = Some ''/home/user/proj'', args_pathMapping = None\<rparr>
                 new_UrlPathTransformer))))
        [SetBreakpoints \<lparr>source = \<lparr>path = Some ''/home/user/proj/main.js'',
                                    sourceReference = None, origin = None\<rparr>, lines = [3]\<rparr>,
         Launch \<lparr>args_webRoot = Some ''/srv'', args_pathMapping = None\<rparr>])
     ''/home/user/proj/main.js'' = None"
proof -
  let ?T = "snd (scriptParsed spec_collaborators ''http://localhost/main.js''
              (launch \<lparr>args_webRoot = Some ''/home/user/proj'', args_pathMapping = None\<rparr>
                 new_UrlPathTransformer))"
  let ?rs = "[SetBreakpoints \<lparr>source = \<lparr>path = Some ''/home/user/proj/main.js'',
                                    sourceReference = None, origin = None\<rparr>, lines = [3]\<rparr>,
              Launch \<lparr>args_webRoot = Some ''/srv'', args_pathMapping = None\<rparr>]"
  have before: "getClientPathFromTargetPath ?T ''http://localhost/main.js''
                  = Some ''/home/user/proj/main.js''"
    by (simp add: eval_defs)
  have a: "path_isAbsolute spec_collaborators ''/home/user/proj/main.js''"
    by (simp add: spec_collaborators_def posix_isAbsolute_def)
  have l: "list_all (\<lambda>r. \<not> is_ScriptParsed r) ?rs"
    by simp
  from clearTargetContext_resets[of ?T "''http://localhost/main.js''" spec_collaborators
         "''/home/user/proj/main.js''" ?rs] a l before
  show ?thesis by simp
qed

section \<open>Lookup by client path\<close>

lemma spec_isURL_not_absolute:
  assumes "spec_isURL x"
  shows "\<not> posix_isAbsolute x"
proof (cases x)
  case Nil
  then show ?thesis by (simp add: posix_isAbsolute_def)
next
  case (Cons a xs)
  with assms show ?thesis
    by (auto simp add: spec_isURL_def posix_isAbsolute_def Let_def split: if_splits)
qed

text \<open>
  Claim C8, as the code has it. The test is \<open>path.isAbsolute\<close>, not \<open>isURL\<close>. An input that
  is not an absolute path, a URL or a relative path alike, is returned unchanged
  whatever the cache holds. An absolute path is canonicalised and looked up in the map
  from client paths, and the result is nothing when the map has no entry for the
  canonical path. With the POSIX \<open>isAbsolute\<close> no URL is absolute, so every URL is
  returned unchanged.
\<close>

theorem getTargetPathFromClientPath_dispatch:
  "(\<not> path_isAbsolute h x \<longrightarrow>
      getTargetPathFromClientPath h this x = Some x \<and>
      getTargetPathFromClientPath h this x = getTargetPathFromClientPath h that x) \<and>
   (path_isAbsolute h x \<longrightarrow>
      getTargetPathFromClientPath h this x = clientPathToTargetUrl this (utils_canonicalizeUrl h x) \<and>
      (utils_canonicalizeUrl h x \<notin> dom (clientPathToTargetUrl this)
         \<longrightarrow> getTargetPathFromClientPath h this x = None)) \<and>
   (spec_isURL x \<longrightarrow> getTargetPathFromClientPath spec_collaborators this x = Some x)"
  using spec_isURL_not_absolute[of x]
  by (auto simp add: getTargetPathFromClientPath_def spec_collaborators_def)

text \<open>
  On the empty cache: the URL and the relative path come back unchanged, the absolute
  path finds nothing.
\<close>

theorem getTargetPathFromClientPath_dispatch_witness:
  "getTargetPathFromClientPath spec_collaborators new_UrlPathTransformer
     ''http://localhost/main.js'' = Some ''http://localhost/main.js'' \<and>
   getTargetPathFromClientPath spec_collaborators new_UrlPathTransformer ''src/app.js''
     = Some ''src/app.js'' \<and>
   getTargetPathFromClientPath spec_collaborators new_UrlPathTransformer
     ''/home/user/proj/main.js'' = None"
proof -
  have u: "spec_isURL ''http://localhost/main.js''"
    by (simp add: spec_isURL_def)
  have r: "\<not> path_isAbsolute spec_collaborators ''src/app.js''"
    by (simp add: spec_collaborators_def posix_isAbsolute_def)
  have a: "path_isAbsolute spec_collaborators ''/home/user/proj/main.js''"
    by (simp add: spec_collaborators_def posix_isAbsolute_def)
  have d: "utils_canonicalizeUrl spec_collaborators ''/home/user/proj/main.js''
             \<notin> dom (clientPathToTargetUrl new_UrlPathTransformer)"
    by (simp add: new_UrlPathTransformer_def)
  from getTargetPathFromClientPath_dispatch[of spec_collaborators "''src/app.js''"
         new_UrlPathTransformer new_UrlPathTransformer] r
       getTargetPathFromClientPath_dispatch[of spec_collaborators "''/home/user/proj/main.js''"
         new_UrlPathTransformer new_UrlPathTransformer] a d
       getTargetPathFromClientPath_dispatch[of spec_collaborators "''http://localhost/main.js''"
         new_UrlPathTransformer new_UrlPathTransformer] u
  show ?thesis by (simp add: domIff)
qed

text \<open>
  The relative path \<open>src/app.js\<close> is not a URL and the empty cache has no entry for its
  canonical form, yet the lookup returns the path itself instead of nothing.
\<close>

theorem getTargetPathFromClientPath_relative_counterexample:
  "\<not> spec_isURL ''src/app.js'' \<and>
   clientPathToTargetUrl new_UrlPathTransformer (spec_canonicalizeUrl ''src/app.js'') = None \<and>
   getTargetPathFromClientPath spec_collaborators new_UrlPathTransformer ''src/app.js''
     = Some ''src/app.js'' \<and>
   getTargetPathFromClientPath spec_collaborators new_UrlPathTransformer ''src/app.js''
     \<noteq> clientPathToTargetUrl new_UrlPathTransformer (spec_canonicalizeUrl ''src/app.js'')"
  by (simp add: eval_defs)

section \<open>Reconfiguration\<close>

text \<open>
  Claim C10. \<open>launch\<close> and \<open>attach\<close> set the web root to the one of the arguments and the
  path mapping to the one of the arguments, or to the empty one when the arguments have
  none. They leave both maps and the log as they are, so both lookups answer after the
  call as they did before it.
\<close>

theorem launch_attach_keep_cache:
  "webRoot (launch args this) = args_webRoot args \<and>
   pathMapping (launch args this)
     = (case args_pathMapping args of None \<Rightarrow> [] | Some pm \<Rightarrow> pm) \<and>
   caches (launch args this) = caches this \<and>
   logger (launch args this) = logger this \<and>
   getClientPathFromTargetPath (launch args this) u = getClientPathFromTargetPath this u \<and>
   getTargetPathFromClientPath h (launch args this) c = getTargetPathFromClientPath h this c \<and>
   webRoot (attach args this) = args_webRoot args \<and>
   pathMapping (attach args this)
     = (case args_pathMapping args of None \<Rightarrow> [] | Some pm \<Rightarrow> pm) \<and>
   caches (attach args this) = caches this \<and>
   logger (attach args this) = logger this \<and>
   getClientPathFromTargetPath (attach args this) u = getClientPathFromTargetPath this u \<and>
   getTargetPathFromClientPath h (attach args this) c = getTargetPathFromClientPath h this c"
  by (simp add: launch_def attach_def caches_def getClientPathFromTargetPath_def
        getTargetPathFromClientPath_def)

text \<open>
  A pair cached under web root \<open>/home/user/proj\<close> is still found by both lookups after an
  \<open>attach\<close> with another web root.
\<close>

theorem launch_attach_keep_cache_witness:
  "getClientPathFromTargetPath
     (attach \<lparr>args_webRoot = Some ''/srv'', args_pathMapping = None\<rparr>
        (snd (scriptParsed spec_collaborators ''http://localhost/main.js''
           (launch \<lparr>args_webRoot = Some ''/home/user/proj'', args_pathMapping = None\<rparr>
              new_UrlPathTransformer))))
     ''http://localhost/main.js'' = Some ''/home/user/proj/main.js'' \<and>
   getTargetPathFromClientPath spec_collaborators
     (attach \<lparr>args_webRoot = Some ''/srv'', args_pathMapping = None\<rparr>
        (snd (scriptParsed spec_collaborators ''http://localhost/main.js''
           (launch \<lparr>args_webRoot = Some ''/home/user/proj'', args_pathMapping = None\<rparr>
              new_UrlPathTransformer))))
     ''/home/user/proj/main.js'' = Some ''http://localhost/main.js'' \<and>
   pathMapping
     (attach \<lparr>args_webRoot = Some ''/srv'', args_pathMapping = None\<rparr>
        (snd (scriptParsed spec_collaborators ''http://localhost/main.js''
           (launch \<lparr>args_webRoot = Some ''/home/user/proj'', args_pathMapping = None\<rparr>
              new_UrlPathTransformer)))) = []"
proof -
  let ?T = "snd (scriptParsed spec_collaborators ''http://localhost/main.js''
              (launch \<lparr>args_webRoot = Some ''/home/user/proj'', args_pathMapping = None\<rparr>
                 new_UrlPathTransformer))"
  have g: "getClientPathFromTargetPath ?T ''http://localhost/main.js''
             = Some ''/home/user/proj/main.js''"
    by (simp add: eval_defs)
  have t: "getTargetPathFromClientPath spec_collaborators ?T ''/home/user/proj/main.js''
             = Some ''http://localhost/main.js''"
    by (simp add: eval_defs)
  from launch_attach_keep_cache[of "\<lparr>args_webRoot = Some ''/srv'', args_pathMapping = None\<rparr>" ?T
         "''http://localhost/main.js''" spec_collaborators "''/home/user/proj/main.js''"] g t
  show ?thesis by simp
qed

section \<open>Operations that only read the cache\<close>

text \<open>
  Claim C9. \<open>setBreakpoints\<close> and \<open>stackTraceResponse\<close> leave both maps as they are, and
  so do the two lookups; over a sequence of requests with no \<open>scriptParsed\<close> and no
  \<open>clearTargetContext\<close> both maps end as they began. A stack frame that the web root
  resolves is rewritten without anything being added to the cache.
\<close>

theorem cache_frame:
  "caches (snd (setBreakpoints h args this)) = caches this \<and>
   caches (snd (stackTraceResponse h response this)) = caches this \<and>
   caches (dispatch h this (GetTargetPathFromClientPath c)) = caches this \<and>
   caches (dispatch h this (GetClientPathFromTargetPath u)) = caches this \<and>
   (list_all (\<lambda>r. \<not> is_ScriptParsed r \<and> r \<noteq> ClearTargetContext) rs
      \<longrightarrow> caches (run h this rs) = caches this)"
proof (intro conjI impI)
  show "caches (snd (setBreakpoints h args this)) = caches this"
    by (rule setBreakpoints_caches)
  show "caches (snd (stackTraceResponse h response this)) = caches this"
    by (simp add: stackTraceResponse_state)
  show "caches (dispatch h this (GetTargetPathFromClientPath c)) = caches this"
    by simp
  show "caches (dispatch h this (GetClientPathFromTargetPath u)) = caches this"
    by simp
next
  assume "list_all (\<lambda>r. \<not> is_ScriptParsed r \<and> r \<noteq> ClearTargetContext) rs"
  then show "caches (run h this rs) = caches this"
    by (rule run_caches)
qed

text \<open>
  On the empty cache with web root \<open>/home/user/proj\<close>: the frame is resolved through the
  web root, and after the stack trace, a breakpoint request and a lookup the cache is
  still empty.
\<close>

theorem cache_frame_witness:
  "stackFrames (fst (stackTraceResponse spec_collaborators
      \<lparr>stackFrames = [\<lparr>frame_id = 1, frame_name = ''main'',
            frame_source = Some \<lparr>path = Some ''http://localhost/main.js'',
                                 sourceReference = Some 7, origin = Some ''remote''\<rparr>,
            line = 10, column = 2\<rparr>]\<rparr>
      (launch \<lparr>args_webRoot = Some ''/home/user/proj'', args_pathMapping = None\<rparr>
           new_UrlPathTransformer)))
    = [\<lparr>frame_id = 1, frame_name = ''main'',
            frame_source = Some \<lparr>path = Some ''/home/user/proj/main.js'',
                                 sourceReference = None, origin = None\<rparr>,
            line = 10, column = 2\<rparr>] \<and>
   caches (run spec_collaborators
      (launch \<lparr>args_webRoot = Some ''/home/user/proj'', args_pathMapping = None\<rparr>
           new_UrlPathTransformer)
      [StackTraceResponse
         \<lparr>stackFrames = [\<lparr>frame_id = 1, frame_name = ''main'',
            frame_source = Some \<lparr>path = Some ''http://localhost/main.js'',
                                 sourceReference = Some 7, origin = Some ''remote''\<rparr>,
            line = 10, column = 2\<rparr>]\<rparr>,
       SetBreakpoints \<lparr>source = \<lparr>path = Some ''/home/user/proj/main.js'',
                                  sourceReference = None, origin = None\<rparr>, lines = [3]\<rparr>,
       GetClientPathFromTargetPath ''http://localhost/main.js''])
    = (Map.empty, Map.empty)"
proof -
  let ?S = "launch \<lparr>args_webRoot = Some ''/home/user/proj'', args_pathMapping = None\<rparr>
              new_UrlPathTransformer"
  let ?rs = "[StackTraceResponse
         \<lparr>stackFrames = [\<lparr>frame_id = 1, frame_name = ''main'',
            frame_source = Some \<lparr>path = Some ''http://localhost/main.js'',
                                 sourceReference = Some 7, origin = Some ''remote''\<rparr>,
            line = 10, column = 2\<rparr>]\<rparr>,
       SetBreakpoints \<lparr>source = \<lparr>path = Some ''/home/user/proj/main.js'',
                                  sourceReference = None, origin = None\<rparr>, lines = [3]\<rparr>,
       GetClientPathFromTargetPath ''http://localhost/main.js'']"
  have f: "stackFrames (fst (stackTraceResponse spec_collaborators
      \<lparr>stackFrames = [\<lparr>frame_id = 1, frame_name = ''main'',
            frame_source = Some \<lparr>path = Some ''http://localhost/main.js'',
                                 sourceReference = Some 7, origin = Some ''remote''\<rparr>,
            line = 10, column = 2\<rparr>]\<rparr> ?S))
    = [\<lparr>frame_id = 1, frame_name = ''main'',
            frame_source = Some \<lparr>path = Some ''/home/user/proj/main.js'',
                                 sourceReference = None, origin = None\<rparr>,
            line = 10, column = 2\<rparr>]"
    by (simp add: eval_defs)
  have l: "list_all (\<lambda>r. \<not> is_ScriptParsed r \<and> r \<noteq> ClearTargetContext) ?rs"
    by simp
  have e: "caches ?S = (Map.empty, Map.empty)"
    by (simp add: launch_def new_UrlPathTransformer_def caches_def)
  from cache_frame[of spec_collaborators _ ?S _ _ _ ?rs] l e f
  show ?thesis by simp
qed

section \<open>Breakpoint requests\<close>




section \<open>Stack traces\<close>

text \<open>
  Claim C6. \<open>stackTraceResponse\<close> keeps the number of frames. A frame whose source has a
  non-empty path \<open>p\<close> gets the cached client path of \<open>p\<close> when that is truthy, else the
  result of the web-root resolver when that is truthy; its \<open>sourceReference\<close> and
  \<open>origin\<close> are cleared and nothing else changes. A frame with no source, with a source
  without a path, or with a path that neither the cache nor the web root resolves, is
  left exactly as it is.
\<close>

theorem stackTraceResponse_frames:
  assumes "i < length (stackFrames response)"
  shows
   "length (stackFrames (fst (stackTraceResponse h response this)))
      = length (stackFrames response) \<and>
    (frame_source (stackFrames response ! i) = Some src \<and> path src = Some p \<and> p \<noteq> [] \<and>
     truthy (getClientPathFromTargetPath this p) \<longrightarrow>
       stackFrames (fst (stackTraceResponse h response this)) ! i
         = (stackFrames response ! i)\<lparr>frame_source :=
              Some (src\<lparr>path := getClientPathFromTargetPath this p,
                        sourceReference := None, origin := None\<rparr>)\<rparr>) \<and>
    (frame_source (stackFrames response ! i) = Some src \<and> path src = Some p \<and> p \<noteq> [] \<and>
     \<not> truthy (getClientPathFromTargetPath this p) \<and>
     truthy (targetUrlToClientPath h (webRoot this) p) \<longrightarrow>
       stackFrames (fst (stackTraceResponse h response this)) ! i
         = (stackFrames response ! i)\<lparr>frame_source :=
              Some (src\<lparr>path := targetUrlToClientPath h (webRoot this) p,
                        sourceReference := None, origin := None\<rparr>)\<rparr>) \<and>
    (frame_source (stackFrames response ! i) = Some src \<and> path src = Some p \<and> p \<noteq> [] \<and>
     \<not> truthy (getClientPathFromTargetPath this p) \<and>
     \<not> truthy (targetUrlToClientPath h (webRoot this) p) \<longrightarrow>
       stackFrames (fst (stackTraceResponse h response this)) ! i = stackFrames response ! i) \<and>
    (frame_source (stackFrames response ! i) = Some src \<and> \<not> truthy (path src) \<longrightarrow>
       stackFrames (fst (stackTraceResponse h response this)) ! i = stackFrames response ! i) \<and>
    (frame_source (stackFrames response ! i) = None \<longrightarrow>
       stackFrames (fst (stackTraceResponse h response this)) ! i = stackFrames response ! i)"
  using assms
  by (simp add: stackTraceResponse_def stackFrame_fix_def js_or_def Let_def)


text \<open>
  The four example frames: the first is resolved from the cache, the second through the
  web root, the third has no source and the fourth does not resolve.
\<close>

theorem stackTraceResponse_frames_witness:
  "stackFrames (fst (stackTraceResponse spec_collaborators example_response example_session))
     = [\<lparr>frame_id = 1, frame_name = ''main'',
          frame_source = Some \<lparr>path = Some ''/srv/www/main.js'',
                               sourceReference = None, origin = None\<rparr>,
          line = 10, column = 2\<rparr>,
         \<lparr>frame_id = 2, frame_name = ''helper'',
          frame_source = Some \<lparr>path = Some ''/home/user/proj/lib.js'',
                               sourceReference = None, origin = None\<rparr>,
          line = 4, column = 1\<rparr>,
         \<lparr>frame_id = 3, frame_name = ''native'', frame_source = None, line = 0, column = 0\<rparr>,
         \<lparr>frame_id = 4, frame_name = ''anonymous'',
          frame_source = Some \<lparr>path = Some ''eval://123'',
                               sourceReference = Some 9, origin = Some ''eval''\<rparr>,
          line = 1, column = 1\<rparr>]"
proof -
  let ?h = spec_collaborators
  let ?out = "stackFrames (fst (stackTraceResponse ?h example_response example_session))"
  have len: "length (stackFrames example_response) = 4"
    by (simp add: example_response_def)
  have w: "webRoot example_session = Some ''/home/user/proj''"
    by (simp add: example_session_def eval_defs)
  have g0: "getClientPathFromTargetPath example_session ''http://localhost/app/main.js''
              = Some ''/srv/www/main.js''"
    by (simp add: example_session_def eval_defs)
  have g1: "getClientPathFromTargetPath example_session ''http://localhost/lib.js'' = None"
    by (simp add: example_session_def eval_defs)
  have r1: "targetUrlToClientPath ?h (Some ''/home/user/proj'') ''http://localhost/lib.js''
              = Some ''/home/user/proj/lib.js''"
    by (simp add: eval_defs)
  have g3: "getClientPathFromTargetPath example_session ''eval://123'' = None"
    by (simp add: example_session_def eval_defs)
  have r3: "targetUrlToClientPath ?h (Some ''/home/user/proj'') ''eval://123'' = None"
    by (simp add: eval_defs)
  have l: "length ?out = 4"
    using stackTraceResponse_frames[of 0 example_response ?h example_session] len by simp
  have f0: "?out ! 0 = \<lparr>frame_id = 1, frame_name = ''main'',
          frame_source = Some \<lparr>path = Some ''/srv/www/main.js'',
                               sourceReference = None, origin = None\<rparr>,
          line = 10, column = 2\<rparr>"
    using stackTraceResponse_frames[of 0 example_response ?h example_session
            "\<lparr>path = Some ''http://localhost/app/main.js'',
              sourceReference = Some 7, origin = Some ''remote''\<rparr>"
            "''http://localhost/app/main.js''"] len g0
    by (simp add: example_response_def)
  have f1: "?out ! 1 = \<lparr>frame_id = 2, frame_name = ''helper'',
          frame_source = Some \<lparr>path = Some ''/home/user/proj/lib.js'',
                               sourceReference = None, origin = None\<rparr>,
          line = 4, column = 1\<rparr>"
    using stackTraceResponse_frames[of 1 example_response ?h example_session
            "\<lparr>path = Some ''http://localhost/lib.js'',
              sourceReference = Some 8, origin = None\<rparr>"
            "''http://localhost/lib.js''"] len g1 r1 w
    by (simp add: example_response_def)
  have f2: "?out ! 2 = \<lparr>frame_id = 3, frame_name = ''native'', frame_source = None,
                         line = 0, column = 0\<rparr>"
    using stackTraceResponse_frames[of 2 example_response ?h example_session] len
    by (simp add: example_response_def)
  have f3: "?out ! 3 = \<lparr>frame_id = 4, frame_name = ''anonymous'',
          frame_source = Some \<lparr>path = Some ''eval://123'',
                               sourceReference = Some 9, origin = Some ''eval''\<rparr>,
          line = 1, column = 1\<rparr>"
    using stackTraceResponse_frames[of 3 example_response ?h example_session
            "\<lparr>path = Some ''eval://123'',
              sourceReference = Some 9, origin = Some ''eval''\<rparr>"
            "''eval://123''"] len g3 r3 w
    by (simp add: example_response_def)
  show ?thesis
  proof (rule nth_equalityI)
    show "length ?out = length
       [\<lparr>frame_id = 1, frame_name = ''main'',
          frame_source = Some \<lparr>path = Some ''/srv/www/main.js'',
                               sourceReference = None, origin = None\<rparr>,
          line = 10, column = 2\<rparr>,
         \<lparr>frame_id = 2, frame_name = ''helper'',
          frame_source = Some \<lparr>path = Some ''/home/user/proj/lib.js'',
                               sourceReference = None, origin = None\<rparr>,
          line = 4, column = 1\<rparr>,
         \<lparr>frame_id = 3, frame_name = ''native'', frame_source = None, line = 0, column = 0\<rparr>,
         \<lparr>frame_id = 4, frame_name = ''anonymous'',
          frame_source = Some \<lparr>path = Some ''eval://123'',
                               sourceReference = Some 9, origin = Some ''eval''\<rparr>,
          line = 1, column = 1\<rparr>]"
      using l by simp
  next
    fix i assume "i < length ?out"
    with l have "i = 0 \<or> i = 1 \<or> i = 2 \<or> i = 3" by auto
    with f0 f1 f2 f3
    show "?out ! i =
       [\<lparr>frame_id = 1, frame_name = ''main'',
          frame_source = Some \<lparr>path = Some ''/srv/www/main.js'',
                               sourceReference = None, origin = None\<rparr>,
          line = 10, column = 2\<rparr>,
         \<lparr>frame_id = 2, frame_name = ''helper'',
          frame_source = Some \<lparr>path = Some ''/home/user/proj/lib.js'',
                               sourceReference = None, origin = None\<rparr>,
          line = 4, column = 1\<rparr>,
         \<lparr>frame_id = 3, frame_name = ''native'', frame_source = None, line = 0, column = 0\<rparr>,
         \<lparr>frame_id = 4, frame_name = ''anonymous'',
          frame_source = Some \<lparr>path = Some ''eval://123'',
                               sourceReference = Some 9, origin = Some ''eval''\<rparr>,
          line = 1, column = 1\<rparr>] ! i"
      by auto
  qed
qed

section \<open>The two maps as one relation\<close>

lemma bidirectional_caches:
  "caches a = caches b \<Longrightarrow> bidirectional a = bidirectional b"
  by (simp add: caches_def bidirectional_def)

lemma bidirectional_clearTargetContext: "bidirectional (clearTargetContext this)"
  by (simp add: bidirectional_def clearTargetContext_def)

lemma bidirectional_scriptParsed:
  assumes "bidirectional this" and "no_reuse h this (ScriptParsed u)"
  shows "bidirectional (snd (scriptParsed h u this))"
proof (cases "truthy (resolution h this u)")
  case False
  from bidirectional_caches[OF scriptParsed_miss(2)[OF False]] assms(1)
  show ?thesis by simp
next
  case True
  define c where "c = string_of (resolution h this u)"
  define t where "t = targetUrlToClientPath_map this"
  define k where "k = clientPathToTargetUrl this"
  from assms(2) True
  have f1: "t u = None \<or> t u = Some c" and f2: "k c = None \<or> k c = Some u"
    by (simp_all add: c_def t_def k_def)
  from assms(1) have b: "\<And>u' c'. t u' = Some c' \<longleftrightarrow> k c' = Some u'"
    by (simp add: bidirectional_def t_def k_def)
  have t': "targetUrlToClientPath_map (snd (scriptParsed h u this)) = t(u \<mapsto> c)"
    and k': "clientPathToTargetUrl (snd (scriptParsed h u this)) = k(c \<mapsto> u)"
    by (simp_all add: scriptParsed_resolved[OF True] c_def t_def k_def)
  have "(t(u \<mapsto> c)) u' = Some c' \<longleftrightarrow> (k(c \<mapsto> u)) c' = Some u'" for u' c'
  proof (cases "u' = u")
    case True
    show ?thesis
    proof (cases "c' = c")
      case True
      with \<open>u' = u\<close> show ?thesis by simp
    next
      case False
      from f1 False have "t u \<noteq> Some c'" by auto
      with b have "k c' \<noteq> Some u" by simp
      with False \<open>u' = u\<close> show ?thesis by auto
    qed
  next
    case False
    show ?thesis
    proof (cases "c' = c")
      case True
      from f2 False have "k c \<noteq> Some u'" by auto
      with b have "t u' \<noteq> Some c" by simp
      with True False show ?thesis by auto
    next
      case False
      with \<open>u' \<noteq> u\<close> b show ?thesis by simp
    qed
  qed
  then show ?thesis by (simp add: bidirectional_def t' k')
qed

lemma bidirectional_dispatch:
  assumes "bidirectional this" and "no_reuse h this r"
  shows "bidirectional (dispatch h this r)"
proof (cases "is_ScriptParsed r")
  case True
  then obtain u where "r = ScriptParsed u" by (cases r) simp_all
  with assms show ?thesis by (simp add: bidirectional_scriptParsed)
next
  case False
  show ?thesis
  proof (cases "r = ClearTargetContext")
    case True
    then show ?thesis by (simp add: bidirectional_clearTargetContext)
  next
    case False
    with \<open>\<not> is_ScriptParsed r\<close> have "caches (dispatch h this r) = caches this"
      by (rule dispatch_caches)
    from bidirectional_caches[OF this] assms(1) show ?thesis by simp
  qed
qed

lemma bidirectional_run:
  "bidirectional this \<Longrightarrow> no_reuse_run h this rs \<Longrightarrow> bidirectional (run h this rs)"
proof (induction rs arbitrary: this)
  case Nil
  then show ?case by (simp add: run_Nil)
next
  case (Cons r rs)
  then show ?case by (simp add: run_Cons bidirectional_dispatch)
qed

text \<open>
  Claim C2, as the code has it. The two maps are written independently: a resolving
  \<open>scriptParsed\<close> sets \<open>c \<mapsto> u\<close> in one and \<open>u \<mapsto> c\<close> in the other, each overwriting the
  entry under its own key and nothing else. From a state in which the maps agree (the
  empty cache is one), they agree after any sequence of requests in which no
  \<open>scriptParsed\<close> resolves a cached URL to another path or another URL to a cached path;
  then, for an absolute path \<open>c\<close> that \<open>canonicalizeUrl\<close> leaves as it is, the lookup by
  target URL maps \<open>u\<close> to \<open>c\<close> exactly when the lookup by client path maps \<open>c\<close> to \<open>u\<close>.
\<close>

theorem cache_bidirectional:
  "(bidirectional this \<and> no_reuse_run h this rs \<longrightarrow> bidirectional (run h this rs)) \<and>
   (bidirectional this \<and> path_isAbsolute h c \<and> utils_canonicalizeUrl h c = c \<longrightarrow>
      (getClientPathFromTargetPath this u = Some c
         \<longleftrightarrow> getTargetPathFromClientPath h this c = Some u)) \<and>
   (truthy (resolution h this u) \<longrightarrow>
      caches (snd (scriptParsed h u this)) =
        ((clientPathToTargetUrl this)(string_of (resolution h this u) \<mapsto> u),
         (targetUrlToClientPath_map this)(u \<mapsto> string_of (resolution h this u))))"
proof (intro conjI impI)
  assume "bidirectional this \<and> no_reuse_run h this rs"
  then show "bidirectional (run h this rs)" by (simp add: bidirectional_run)
next
  assume "bidirectional this \<and> path_isAbsolute h c \<and> utils_canonicalizeUrl h c = c"
  then show "getClientPathFromTargetPath this u = Some c
         \<longleftrightarrow> getTargetPathFromClientPath h this c = Some u"
    by (simp add: bidirectional_def getClientPathFromTargetPath_def getTargetPathFromClientPath_def)
next
  assume t: "truthy (resolution h this u)"
  show "caches (snd (scriptParsed h u this)) =
        ((clientPathToTargetUrl this)(string_of (resolution h this u) \<mapsto> u),
         (targetUrlToClientPath_map this)(u \<mapsto> string_of (resolution h this u)))"
    by (simp add: scriptParsed_resolved[OF t] caches_def)
qed

text \<open>
  Two scripts resolved to two files, with a breakpoint request in between: the maps
  agree and the lookups invert each other.
\<close>

theorem cache_bidirectional_witness:
  "bidirectional (run spec_collaborators new_UrlPathTransformer example_requests_distinct) \<and>
   getClientPathFromTargetPath
     (run spec_collaborators new_UrlPathTransformer example_requests_distinct)
     ''http://localhost/main.js'' = Some ''/home/user/proj/main.js'' \<and>
   getTargetPathFromClientPath spec_collaborators
     (run spec_collaborators new_UrlPathTransformer example_requests_distinct)
     ''/home/user/proj/main.js'' = Some ''http://localhost/main.js''"
proof -
  let ?h = spec_collaborators
  let ?T = "run ?h new_UrlPathTransformer example_requests_distinct"
  have b0: "bidirectional new_UrlPathTransformer"
    by (simp add: bidirectional_def new_UrlPathTransformer_def)
  have nr: "no_reuse_run ?h new_UrlPathTransformer example_requests_distinct"
    by (simp add: example_requests_distinct_def resolution_def eval_defs)
  from cache_bidirectional[of new_UrlPathTransformer ?h example_requests_distinct] b0 nr
  have b: "bidirectional ?T"
    by simp
  have a: "path_isAbsolute ?h ''/home/user/proj/main.js''"
    by (simp add: spec_collaborators_def posix_isAbsolute_def)
  have k: "utils_canonicalizeUrl ?h ''/home/user/proj/main.js'' = ''/home/user/proj/main.js''"
    by (simp add: spec_collaborators_def spec_canonicalizeUrl_def)
  have g: "getClientPathFromTargetPath ?T ''http://localhost/main.js''
             = Some ''/home/user/proj/main.js''"
    by (simp add: example_requests_distinct_def eval_defs)
  from cache_bidirectional[of ?T ?h "[]" "''/home/user/proj/main.js''"
         "''http://localhost/main.js''"] b a k g
  have "getTargetPathFromClientPath ?h ?T ''/home/user/proj/main.js''
          = Some ''http://localhost/main.js''"
    by simp
  with b g show ?thesis by simp
qed

text \<open>
  Two URLs resolved to the same file: the first URL still maps to the file, but the file
  maps to the second URL only, so the entry of the first URL is stale.
\<close>

theorem cache_bidirectional_counterexample:
  "getClientPathFromTargetPath
     (run spec_collaborators new_UrlPathTransformer example_requests)
     ''http://localhost/main.js'' = Some ''/home/user/proj/main.js'' \<and>
   getTargetPathFromClientPath spec_collaborators
     (run spec_collaborators new_UrlPathTransformer example_requests)
     ''/home/user/proj/main.js'' = Some ''http://localhost/main.js?v=2'' \<and>
   getTargetPathFromClientPath spec_collaborators
     (run spec_collaborators new_UrlPathTransformer example_requests)
     ''/home/user/proj/main.js'' \<noteq> Some ''http://localhost/main.js''"
  by (simp add: example_requests_def eval_defs)

end
